theory Spec2Isabelle
  imports Main
begin

section \<open>Python values and built-ins the controller relies on\<close>

text \<open>
  Exceptions are values. \<open>ValueError\<close>, \<open>TypeError\<close>, \<open>AttributeError\<close> and
  \<open>IndexError\<close> are the Python exceptions the modelled code can raise. \<open>ReadBlocks\<close> is
  not an exception: it stands for \<open>bridge.readline()\<close> never returning because the
  device has sent no further line.
\<close>

datatype error = ValueError | TypeError | AttributeError | IndexError | ReadBlocks

text \<open>
  A port is \<open>Union[str, int]\<close>, a value to set is \<open>Union[bool, int]\<close>. What
  \<open>Serial.get_value\<close> hands to its caller is an arbitrary Python object; the three
  shapes that matter to the callers are \<open>None\<close>, an \<open>int\<close> and a \<open>str\<close>.
\<close>

datatype pyport = PInt int | PStr string

datatype pyval = VBool bool | VInt int

datatype pyobj = ObjNone | ObjInt int | ObjStr string

text \<open>\<open>str(n)\<close> for a non-negative and for an arbitrary integer.\<close>

fun py_str_nat :: "nat \<Rightarrow> string" where
  "py_str_nat n =
     (if n < 10 then [''0123456789'' ! n]
      else py_str_nat (n div 10) @ [''0123456789'' ! (n mod 10)])"

declare py_str_nat.simps [simp del]

definition py_str :: "int \<Rightarrow> string" where
  "py_str i = (if i < 0 then ''-'' @ py_str_nat (nat (- i)) else py_str_nat (nat i))"

text \<open>The digits of \<open>hex(n)\<close> after the \<open>0x\<close> prefix.\<close>

fun py_hex_nat :: "nat \<Rightarrow> string" where
  "py_hex_nat n =
     (if n < 16 then [''0123456789abcdef'' ! n]
      else py_hex_nat (n div 16) @ [''0123456789abcdef'' ! (n mod 16)])"

declare py_hex_nat.simps [simp del]

text \<open>
  \<open>int(s)\<close> on a string, base 10: surrounding whitespace is stripped, one sign is
  allowed, then decimal digits, where single underscores may separate digits. Strings are
  lists of 8-bit characters here; the characters that \<open>int\<close> strips are, among the code
  points below 256, tab, line feed, vertical tab, form feed, carriage return, space,
  next line (133) and no-break space (160). The separators 28 to 31 are not stripped:
  on the file separator followed by \<open>5\<close> it raises. \<open>None\<close> stands for the
  \<open>ValueError\<close> that \<open>int\<close> raises.
\<close>

definition is_space :: "char \<Rightarrow> bool" where
  "is_space c = ((of_char c :: nat) \<in> {9, 10, 11, 12, 13, 32, 133, 160})"

definition is_digit :: "char \<Rightarrow> bool" where
  "is_digit c = (c \<in> set ''0123456789'')"

definition digit_val :: "char \<Rightarrow> nat" where
  "digit_val c = (of_char c :: nat) - 48"

definition py_strip :: "string \<Rightarrow> string" where
  "py_strip s = rev (dropWhile is_space (rev (dropWhile is_space s)))"

fun digits_from :: "nat \<Rightarrow> string \<Rightarrow> nat option" where
  "digits_from acc [] = Some acc"
| "digits_from acc (c # cs) =
     (if is_digit c then digits_from (10 * acc + digit_val c) cs
      else if c = CHR ''_'' \<and> cs \<noteq> [] \<and> is_digit (hd cs) then digits_from acc cs
      else None)"

definition py_digits :: "string \<Rightarrow> nat option" where
  "py_digits s =
     (case s of [] \<Rightarrow> None
      | c # cs \<Rightarrow> if is_digit c then digits_from 0 s else None)"

definition py_int :: "string \<Rightarrow> int option" where
  "py_int s =
     (case py_strip s of [] \<Rightarrow> None
      | c # cs \<Rightarrow>
          if c = CHR ''-'' then map_option (\<lambda>n. - int n) (py_digits cs)
          else if c = CHR ''+'' then map_option int (py_digits cs)
          else map_option int (py_digits (c # cs)))"

text \<open>\<open>s.split(sep)\<close> for a one-character separator: one more piece than separators.\<close>

fun py_split :: "char \<Rightarrow> string \<Rightarrow> string list" where
  "py_split sep [] = [[]]"
| "py_split sep (c # cs) =
     (if c = sep then [] # py_split sep cs
      else (case py_split sep cs of [] \<Rightarrow> [[c]] | p # ps \<Rightarrow> (c # p) # ps))"

section \<open>serial\_protocol.py\<close>

definition MODES :: "(string \<times> string) list" where
  "MODES = [(''INPUT'', ''I''), (''OUTPUT'', ''O''), (''BRAKE'', ''S''),
            (''RELEASE'', ''R''), (''FORWARD'', ''F''), (''BACKWARD'', ''B'')]"

text \<open>
  \<open>is_valid_port\<close>. On a string of length 2 whose first character is none of
  \<open>A\<close>, \<open>M\<close>, \<open>S\<close> the source tries \<open>int(port)\<close> and catches \<open>ValueError\<close>.
\<close>

fun is_valid_port :: "pyport \<Rightarrow> bool" where
  "is_valid_port (PStr p) =
     (if length p \<noteq> 2 then False
      else if p ! 0 = CHR ''A'' then p ! 1 \<in> set ''012345''
      else if p ! 0 = CHR ''M'' then p ! 1 \<in> set ''0123''
      else if p ! 0 = CHR ''S'' then p ! 1 \<in> set ''01''
      else (case py_int p of None \<Rightarrow> False
            | Some int_port \<Rightarrow> 0 \<le> int_port \<and> int_port \<le> 13))"
| "is_valid_port (PInt p) = (0 \<le> p \<and> p \<le> 13)"

fun is_valid_value :: "pyval \<Rightarrow> bool" where
  "is_valid_value (VBool b) = True"
| "is_valid_value (VInt v) = (0 \<le> v \<and> v < 256)"

definition is_valid_speed :: "int \<Rightarrow> bool" where
  "is_valid_speed speed = (0 < speed \<and> speed < 256)"

text \<open>
  \<open>port[0]\<close>: subscripting an \<open>int\<close> raises \<open>TypeError\<close>, subscripting the empty
  string raises \<open>IndexError\<close>.
\<close>

fun port_first :: "pyport \<Rightarrow> error + char" where
  "port_first (PInt p) = Inl TypeError"
| "port_first (PStr []) = Inl IndexError"
| "port_first (PStr (c # cs)) = Inr c"

text \<open>
  \<open>check_inputs(port, value=None, mode=None, speed=None)\<close>. The second test is
  \<open>value is not None and port[0] != 'S' and not is_valid_value(value)\<close>, evaluated left
  to right, so \<open>port[0]\<close> is evaluated whenever a value is given.
\<close>

definition check_inputs ::
  "pyport \<Rightarrow> pyval option \<Rightarrow> string option \<Rightarrow> int option \<Rightarrow> error + unit" where
  "check_inputs p val mode speed =
     (if \<not> is_valid_port p then Inl ValueError
      else
        case (case val of None \<Rightarrow> Inr False
              | Some v \<Rightarrow>
                  (case port_first p of Inl e \<Rightarrow> Inl e
                   | Inr c \<Rightarrow> Inr (c \<noteq> CHR ''S'' \<and> \<not> is_valid_value v))) of
          Inl e \<Rightarrow> Inl e
        | Inr bad_value \<Rightarrow>
            if bad_value then Inl ValueError
            else if (case mode of None \<Rightarrow> False
                     | Some m \<Rightarrow> m \<notin> set (map fst MODES) \<and> m \<notin> set (map snd MODES))
              then Inl ValueError
            else if (case speed of None \<Rightarrow> False | Some sp \<Rightarrow> \<not> is_valid_speed sp)
              then Inl ValueError
            else Inr ())"

fun format_port :: "pyport \<Rightarrow> string" where
  "format_port (PStr p) = p"
| "format_port (PInt p) = (if p < 10 then ''0'' else '''') @ py_str p"

fun format_value :: "pyval \<Rightarrow> string" where
  "format_value (VBool b) = (if b then ''H'' else ''L'')"
| "format_value (VInt v) =
     (let neg = v < 0 in (if neg then ''-'' else '''') @ py_hex_nat (nat \<bar>v\<bar>))"

definition format_speed :: "int \<Rightarrow> string" where
  "format_speed speed =
     (let res = py_str speed in if speed < 10 then ''0'' @ res else res)"

definition format_mode :: "string \<Rightarrow> string" where
  "format_mode mode = (case map_of MODES mode of Some c \<Rightarrow> c | None \<Rightarrow> mode)"

text \<open>
  The \<open>Serial\<close> object: \<open>connected\<close>, and the byte channel \<open>bridge\<close> as the lines
  still to be read (\<open>rx\<close>) and the messages written so far (\<open>tx\<close>).
\<close>

record Serial =
  connected :: bool
  rx :: "string list"
  tx :: "string list"

definition Serial_write :: "Serial \<Rightarrow> string \<Rightarrow> Serial" where
  "Serial_write s msg = s\<lparr>tx := tx s @ [msg @ [CHR 0x0D]]\<rparr>"

definition set_value :: "Serial \<Rightarrow> pyport \<Rightarrow> pyval \<Rightarrow> (error + unit) \<times> Serial" where
  "set_value s p v =
     (case check_inputs p (Some v) None None of
        Inl e \<Rightarrow> (Inl e, s)
      | Inr u \<Rightarrow>
          if connected s
          then (Inr (), Serial_write s (format_port p @ '':'' @ format_value v))
          else (Inr (), s))"

definition set_speed :: "Serial \<Rightarrow> pyport \<Rightarrow> int \<Rightarrow> (error + unit) \<times> Serial" where
  "set_speed s p speed =
     (case port_first p of
        Inl e \<Rightarrow> (Inl e, s)
      | Inr c \<Rightarrow>
          if c = CHR ''M'' then set_value s p (VInt speed)
          else
            (case check_inputs p None None (Some speed) of
               Inl e \<Rightarrow> (Inl e, s)
             | Inr u \<Rightarrow>
                 if c \<noteq> CHR ''S'' then (Inl ValueError, s)
                 else if connected s
                 then (Inr (), Serial_write s (format_port p @ ''-'' @ format_speed speed))
                 else (Inr (), s)))"

definition set_mode :: "Serial \<Rightarrow> pyport \<Rightarrow> string \<Rightarrow> (error + unit) \<times> Serial" where
  "set_mode s p mode =
     (case check_inputs p None (Some mode) None of
        Inl e \<Rightarrow> (Inl e, s)
      | Inr u \<Rightarrow>
          if connected s
          then (Inr (), Serial_write s (format_port p @ ''-'' @ format_mode mode))
          else (Inr (), s))"

text \<open>
  \<open>get_value\<close> writes \<open>f'{port}?'\<close> (the port as \<open>str\<close> renders it, not
  \<open>format_port\<close>), reads one line and returns \<open>int(line)\<close>; when not connected it falls
  off the end and returns \<open>None\<close>.
\<close>

fun port_str :: "pyport \<Rightarrow> string" where
  "port_str (PStr p) = p"
| "port_str (PInt p) = py_str p"

definition get_value :: "Serial \<Rightarrow> pyport \<Rightarrow> (error + pyobj) \<times> Serial" where
  "get_value s p =
     (case check_inputs p None None None of
        Inl e \<Rightarrow> (Inl e, s)
      | Inr u \<Rightarrow>
          if connected s then
            (let s1 = Serial_write s (port_str p @ ''?'') in
             case rx s1 of
               [] \<Rightarrow> (Inl ReadBlocks, s1)
             | line # rest \<Rightarrow>
                 (case py_int line of
                    None \<Rightarrow> (Inl ValueError, s1\<lparr>rx := rest\<rparr>)
                  | Some n \<Rightarrow> (Inr (ObjInt n), s1\<lparr>rx := rest\<rparr>)))
          else (Inr ObjNone, s))"

section \<open>devices.py\<close>

subsection \<open>CachedValue\<close>

text \<open>
  The fields of \<open>CachedValue\<close>; \<open>cv_value\<close> is the attribute \<open>_value\<close>. In both
  cached fields \<open>None\<close> is Python's \<open>None\<close>. The \<open>_serial\<close> reference is not a field:
  the one \<open>Serial\<close> object that all devices share is passed to every operation and
  returned by it. Subclasses extend the record.
\<close>

record 'v CachedValue =
  cv_value :: "'v option"
  last_value :: "'v option"
  track :: bool

text \<open>
  The property \<open>value\<close> and \<open>reset\<close>, over the abstract method \<open>_fetch_value\<close> of the
  subclass, which may raise, may return \<open>None\<close>, and may change the object and the
  world \<open>'w\<close> it reads from.
\<close>

definition CachedValue_value ::
  "('w \<Rightarrow> ('v, 'm) CachedValue_scheme \<Rightarrow> (error + 'v option) \<times> 'w \<times> ('v, 'm) CachedValue_scheme)
   \<Rightarrow> 'w \<Rightarrow> ('v, 'm) CachedValue_scheme
   \<Rightarrow> (error + 'v option) \<times> 'w \<times> ('v, 'm) CachedValue_scheme" where
  "CachedValue_value fetch_value w self =
     (case cv_value self of
        Some v \<Rightarrow> (Inr (Some v), w, self)
      | None \<Rightarrow>
          (case fetch_value w self of
             (Inl e, w', self') \<Rightarrow> (Inl e, w', self')
           | (Inr v, w', self') \<Rightarrow> (Inr v, w', self'\<lparr>cv_value := v\<rparr>)))"


text \<open>
  A fetch counter, as a test double would keep it: the world is paired with the number of
  \<open>_fetch_value\<close> calls made so far.
\<close>

definition counting ::
  "('w \<Rightarrow> 'o \<Rightarrow> 'r \<times> 'w \<times> 'o) \<Rightarrow> nat \<times> 'w \<Rightarrow> 'o \<Rightarrow> 'r \<times> (nat \<times> 'w) \<times> 'o" where
  "counting fetch_value nw self =
     (case fetch_value (snd nw) self of (r, w', self') \<Rightarrow> (r, (Suc (fst nw), w'), self'))"

subsection \<open>DigitalInputMatrix and DigitalInputMatrixSet\<close>

record 'v DigitalInputMatrix = "'v CachedValue" +
  reversed :: bool
  port :: pyport

text \<open>
  The loop of \<open>DigitalInputMatrix._fetch_value\<close> on a string \<open>val\<close>:
  \<open>[(v == '1') ^ self.reversed for v in row]\<close> for each \<open>row\<close> of
  \<open>val.split(';')[:-1]\<close>.
\<close>

definition matrix_rows :: "bool \<Rightarrow> string \<Rightarrow> bool list list" where
  "matrix_rows rev_flag val =
     map (\<lambda>row. map (\<lambda>v. (v = CHR ''1'') \<noteq> rev_flag) row) (butlast (py_split (CHR '';'') val))"

text \<open>
  \<open>DigitalInputMatrix._fetch_value\<close>: \<open>val = self._serial.get_value(self.port)\<close>, then
  \<open>val.split(';')\<close>, which raises \<open>AttributeError\<close> when \<open>val\<close> is \<open>None\<close> or an
  \<open>int\<close>.
\<close>

definition DigitalInputMatrix_fetch_value ::
  "Serial \<Rightarrow> ('v, 'm) DigitalInputMatrix_scheme \<Rightarrow> (error + bool list list) \<times> Serial" where
  "DigitalInputMatrix_fetch_value s self =
     (case get_value s (port self) of
        (Inl e, s') \<Rightarrow> (Inl e, s')
      | (Inr val, s') \<Rightarrow>
          (case val of
             ObjStr str \<Rightarrow> (Inr (matrix_rows (reversed self) str), s')
           | ObjInt n \<Rightarrow> (Inl AttributeError, s')
           | ObjNone \<Rightarrow> (Inl AttributeError, s')))"

text \<open>
  \<open>DigitalInputMatrixSet._fetch_value\<close> collects the coordinates of the true entries. A
  Python set is modelled as a list without repetitions; its order stands for the
  iteration order of the set, which Python leaves open.
\<close>

definition true_indexes :: "bool list list \<Rightarrow> (nat \<times> nat) list" where
  "true_indexes val =
     concat (map (\<lambda>(i, row). map (\<lambda>(j, v). (i, j)) (filter snd (enumerate 0 row)))
                 (enumerate 0 val))"

definition DigitalInputMatrixSet_fetch_value ::
  "Serial \<Rightarrow> ((nat \<times> nat) list, 'm) DigitalInputMatrix_scheme
   \<Rightarrow> (error + (nat \<times> nat) list option) \<times> Serial \<times> ((nat \<times> nat) list, 'm) DigitalInputMatrix_scheme" where
  "DigitalInputMatrixSet_fetch_value s self =
     (case DigitalInputMatrix_fetch_value s self of
        (Inl e, s') \<Rightarrow> (Inl e, s', self)
      | (Inr val, s') \<Rightarrow> (Inr (Some (true_indexes val)), s', self))"

definition set_minus :: "'a list \<Rightarrow> 'a list \<Rightarrow> 'a list" where
  "set_minus xs ys = filter (\<lambda>x. x \<notin> set ys) xs"

text \<open>
  \<open>newly\<close> is \<open>self.value - self.last_value\<close> and \<open>oldly\<close> is
  \<open>self.last_value - self.value\<close>, both \<open>None\<close> when there is no last value;
  subtracting from or by \<open>None\<close> raises \<open>TypeError\<close>.
\<close>

definition DigitalInputMatrixSet_newly ::
  "Serial \<Rightarrow> ((nat \<times> nat) list, 'm) DigitalInputMatrix_scheme
   \<Rightarrow> (error + (nat \<times> nat) list option) \<times> Serial \<times> ((nat \<times> nat) list, 'm) DigitalInputMatrix_scheme" where
  "DigitalInputMatrixSet_newly s self =
     (case last_value self of
        None \<Rightarrow> (Inr None, s, self)
      | Some older \<Rightarrow>
          (case CachedValue_value DigitalInputMatrixSet_fetch_value s self of
             (Inl e, s', self') \<Rightarrow> (Inl e, s', self')
           | (Inr None, s', self') \<Rightarrow> (Inl TypeError, s', self')
           | (Inr (Some cur), s', self') \<Rightarrow> (Inr (Some (set_minus cur older)), s', self')))"

definition DigitalInputMatrixSet_oldly ::
  "Serial \<Rightarrow> ((nat \<times> nat) list, 'm) DigitalInputMatrix_scheme
   \<Rightarrow> (error + (nat \<times> nat) list option) \<times> Serial \<times> ((nat \<times> nat) list, 'm) DigitalInputMatrix_scheme" where
  "DigitalInputMatrixSet_oldly s self =
     (case last_value self of
        None \<Rightarrow> (Inr None, s, self)
      | Some older \<Rightarrow>
          (case CachedValue_value DigitalInputMatrixSet_fetch_value s self of
             (Inl e, s', self') \<Rightarrow> (Inl e, s', self')
           | (Inr None, s', self') \<Rightarrow> (Inl TypeError, s', self')
           | (Inr (Some cur), s', self') \<Rightarrow> (Inr (Some (set_minus older cur)), s', self')))"

subsection \<open>MoveSensor\<close>

text \<open>
  The sampled value of a \<open>MoveSensor\<close> is a move string such as \<open>e2e4\<close> or \<open>None\<close>;
  \<open>pick_up\<close> is the square lifted last, \<open>prev_pick_up\<close> the one lifted before it. The
  constant \<open>_start\<close> is only read by \<open>wait_for_setup\<close> and is left out.
\<close>

record MoveSensor = "string CachedValue" +
  matrix :: "(nat \<times> nat) list DigitalInputMatrix"
  pick_up :: "string option"
  prev_pick_up :: "string option"

text \<open>
  \<open>chr(indexes[0] + ord('a')) + str(indexes[1] + 1)\<close>; the \<open>print\<close> calls of the
  module are left out throughout. Characters are 8-bit here, which covers every row index
  below 159; the board has 8.
\<close>

fun index_to_move :: "nat \<times> nat \<Rightarrow> string" where
  "index_to_move (i, j) = char_of (i + 97) # py_str_nat (j + 1)"

definition MoveSensor_fetch_value ::
  "Serial \<Rightarrow> MoveSensor \<Rightarrow> (error + string option) \<times> Serial \<times> MoveSensor" where
  "MoveSensor_fetch_value s self =
     (case pick_up self of
        None \<Rightarrow> (Inr None, s, self)
      | Some pu \<Rightarrow>
          (case DigitalInputMatrixSet_newly s (matrix self) of
             (Inl e, s', m') \<Rightarrow> (Inl e, s', self\<lparr>matrix := m'\<rparr>)
           | (Inr None, s', m') \<Rightarrow> (Inl TypeError, s', self\<lparr>matrix := m'\<rparr>)
           | (Inr (Some newly), s', m') \<Rightarrow>
               if length newly > 0 then
                 (let set_down = index_to_move (hd newly);
                      res = (case prev_pick_up self of
                               None \<Rightarrow> if set_down = pu then None else Some (pu @ set_down)
                             | Some prev \<Rightarrow> if pu = set_down then Some (prev @ set_down) else None)
                  in (Inr res, s', self\<lparr>matrix := m', pick_up := None, prev_pick_up := None\<rparr>))
               else (Inr None, s', self\<lparr>matrix := m'\<rparr>)))"

text \<open>Lines 200 to 203 of \<open>MoveSensor.reset\<close>: a vanished square becomes the pending lift.\<close>

definition note_lift :: "(nat \<times> nat) list \<Rightarrow> MoveSensor \<Rightarrow> MoveSensor" where
  "note_lift oldly self =
     (if length oldly > 0
      then self\<lparr>prev_pick_up := pick_up self, pick_up := Some (index_to_move (hd oldly))\<rparr>
      else self)"


section \<open>Example states\<close>

text \<open>Concrete objects for the worked examples below.\<close>

definition wire_up :: Serial where
  "wire_up = \<lparr>connected = True, rx = [], tx = []\<rparr>"

definition wire_down :: Serial where
  "wire_down = \<lparr>connected = False, rx = [], tx = []\<rparr>"

definition row8 :: string where "row8 = ''11000011;''"

definition line8 :: string where
  "line8 = row8 @ row8 @ row8 @ row8 @ row8 @ row8 @ row8 @ row8 @ [CHR 0x0A]"

definition grid_port :: "bool list list DigitalInputMatrix" where
  "grid_port = \<lparr>cv_value = None, last_value = None, track = False, reversed = False, port = PStr ''A0''\<rparr>"

definition board :: "(nat \<times> nat) list \<Rightarrow> (nat \<times> nat) list \<Rightarrow> (nat \<times> nat) list DigitalInputMatrix" where
  "board older cur =
     \<lparr>cv_value = Some cur, last_value = Some older, track = True, reversed = False, port = PStr ''A0''\<rparr>"

definition sensor ::
  "string option \<Rightarrow> string option \<Rightarrow> (nat \<times> nat) list DigitalInputMatrix \<Rightarrow> MoveSensor" where
  "sensor prev_pu pu m =
     \<lparr>cv_value = None, last_value = None, track = True, matrix = m, pick_up = pu, prev_pick_up = prev_pu\<rparr>"



section \<open>Properties of the transport codec\<close>

lemma is_space_not_digit: "is_space c \<Longrightarrow> \<not> is_digit c"
  by (auto simp: is_space_def is_digit_def)

lemma is_space_not_sign: "is_space c \<Longrightarrow> c \<noteq> CHR ''+'' \<and> c \<noteq> CHR ''-'' \<and> c \<noteq> CHR ''_''"
  by (auto simp: is_space_def)

lemma is_space_not_letter: "is_space c \<Longrightarrow> c \<noteq> CHR ''A'' \<and> c \<noteq> CHR ''M'' \<and> c \<noteq> CHR ''S''"
  by (auto simp: is_space_def)

lemma is_digit_not_sign: "is_digit c \<Longrightarrow> c \<noteq> CHR ''+'' \<and> c \<noteq> CHR ''-'' \<and> c \<noteq> CHR ''_''"
  by (auto simp: is_digit_def)

lemma is_digit_not_letter: "is_digit c \<Longrightarrow> c \<noteq> CHR ''A'' \<and> c \<noteq> CHR ''M'' \<and> c \<noteq> CHR ''S''"
  by (auto simp: is_digit_def)

lemma digit_val_le: "is_digit c \<Longrightarrow> digit_val c \<le> 9"
  by (auto simp: is_digit_def digit_val_def)

lemma digit_val_zero: "is_digit c \<Longrightarrow> digit_val c = 0 \<longleftrightarrow> c = CHR ''0''"
  by (auto simp: is_digit_def digit_val_def)

lemma is_digit_zero: "is_digit CHR ''0''"
  by (simp add: is_digit_def)

lemma py_strip_two:
  "py_strip [a, b] =
     (if is_space a then (if is_space b then [] else [b])
      else if is_space b then [a] else [a, b])"
  by (simp add: py_strip_def)

lemma py_digits_one: "py_digits [c] = (if is_digit c then Some (digit_val c) else None)"
  by (simp add: py_digits_def)

lemma py_digits_two:
  "py_digits [a, b] = (if is_digit a \<and> is_digit b then Some (10 * digit_val a + digit_val b) else None)"
  by (simp add: py_digits_def)

lemma py_int_two:
  "py_int [a, b] =
     (if is_space a then (if is_digit b then Some (int (digit_val b)) else None)
      else if is_space b then (if is_digit a then Some (int (digit_val a)) else None)
      else if a = CHR ''-'' then (if is_digit b then Some (- int (digit_val b)) else None)
      else if a = CHR ''+'' then (if is_digit b then Some (int (digit_val b)) else None)
      else if is_digit a \<and> is_digit b then Some (int (10 * digit_val a + digit_val b))
      else None)"
  using is_space_not_digit is_space_not_sign is_digit_not_sign
  by (auto simp: py_int_def py_strip_two py_digits_one py_digits_two py_digits_def)

text \<open>
  Claim C7, as the code has it. \<open>is_valid_port\<close> accepts an integer exactly when it lies
  in 0..13, and a string exactly when it has two characters and is one of \<open>A0\<close>..\<open>A5\<close>,
  \<open>M0\<close>..\<open>M3\<close>, \<open>S0\<close>, \<open>S1\<close>, or is a string that \<open>int\<close> reads as an integer in
  0..13: two decimal digits of value at most 13 (\<open>00\<close>..\<open>13\<close>), one digit with one
  character that \<open>int\<close> strips (code point 9 to 13, 32, 133 or 160) before or after
  it, \<open>+\<close> and a digit, or \<open>-0\<close>. Everything else is rejected, in particular the
  empty string and every string of three or more characters.
\<close>

theorem is_valid_port_accepts:
  "is_valid_port p \<longleftrightarrow>
     (case p of
        PInt n \<Rightarrow> 0 \<le> n \<and> n \<le> 13
      | PStr str \<Rightarrow>
          (\<exists>a b. str = [a, b] \<and>
             (a = CHR ''A'' \<and> b \<in> set ''012345'' \<or>
              a = CHR ''M'' \<and> b \<in> set ''0123'' \<or>
              a = CHR ''S'' \<and> b \<in> set ''01'' \<or>
              is_digit a \<and> is_digit b \<and> 10 * digit_val a + digit_val b \<le> 13 \<or>
              is_space a \<and> is_digit b \<or>
              is_digit a \<and> is_space b \<or>
              a = CHR ''+'' \<and> is_digit b \<or>
              a = CHR ''-'' \<and> b = CHR ''0'')))"
proof (cases p)
  case (PInt n)
  then show ?thesis by simp
next
  case (PStr str)
  show ?thesis
  proof (cases "length str = 2")
    case False
    then show ?thesis using PStr by auto
  next
    case True
    then obtain a b where ab: "str = [a, b]"
      by (metis (no_types, opaque_lifting) One_nat_def Suc_1 length_0_conv length_Suc_conv)
    show ?thesis
      unfolding PStr ab
      using is_space_not_digit[of a] is_space_not_digit[of b] is_space_not_sign[of a] is_space_not_letter[of a]
        is_digit_not_sign[of a] is_digit_not_letter[of a] digit_val_le[of a] digit_val_le[of b]
        digit_val_zero[of b] is_space_not_sign[of b] is_digit_zero
      by (auto simp: py_int_two split: if_splits)
  qed
qed

text \<open>
  The numeric strings are accepted, as the docstring of \<open>is_valid_port\<close> announces
  (a string that can be cast to an int in the range): \<open>12\<close> and \<open>05\<close> are strings
  outside the letter codes, and both are valid ports.
\<close>

theorem is_valid_port_counterexample:
  "is_valid_port (PStr ''12'') \<and> is_valid_port (PStr ''05'') \<and>
   ''12'' \<notin> set [''A0'', ''A1'', ''A2'', ''A3'', ''A4'', ''A5'', ''M0'', ''M1'', ''M2'', ''M3'', ''S0'', ''S1''] \<and>
   ''05'' \<notin> set [''A0'', ''A1'', ''A2'', ''A3'', ''A4'', ''A5'', ''M0'', ''M1'', ''M2'', ''M3'', ''S0'', ''S1'']"
  by (simp add: py_int_two is_digit_def is_space_def digit_val_def)

text \<open>
  The characterisation at concrete strings; the last two are a digit after a tab, which
  \<open>int\<close> strips, and a digit after the file separator (code point 28), which it does
  not.
\<close>

theorem is_valid_port_accepts_witness:
  "is_valid_port (PStr ''M3'') \<and> \<not> is_valid_port (PStr ''M4'') \<and> \<not> is_valid_port (PStr '''') \<and>
   \<not> is_valid_port (PStr ''A10'') \<and> is_valid_port (PStr [CHR 0x09, CHR ''5'']) \<and>
   \<not> is_valid_port (PStr [CHR 0x1C, CHR ''5''])"
  using is_valid_port_accepts [of "PStr ''M3''"] is_valid_port_accepts [of "PStr ''M4''"]
    is_valid_port_accepts [of "PStr ''''"] is_valid_port_accepts [of "PStr ''A10''"]
    is_valid_port_accepts [of "PStr [CHR 0x09, CHR ''5'']"]
    is_valid_port_accepts [of "PStr [CHR 0x1C, CHR ''5'']"]
  by (simp add: is_digit_def is_space_def)

subsection \<open>Setting a value\<close>

text \<open>
  With an integer port and a value given, \<open>check_inputs\<close> evaluates \<open>port[0]\<close> on an
  \<open>int\<close>: every \<open>set_value\<close> call on an integer port raises \<open>TypeError\<close> and writes
  nothing.
\<close>

lemma check_inputs_int_port:
  "is_valid_port (PInt n) \<Longrightarrow> check_inputs (PInt n) (Some v) mode speed = Inl TypeError"
  by (simp add: check_inputs_def)

lemma set_value_int_port:
  "is_valid_port (PInt n) \<Longrightarrow> set_value s (PInt n) v = (Inl TypeError, s)"
  by (simp add: set_value_def check_inputs_int_port)

text \<open>
  Claim C5 at the integer port 5 with the value \<open>True\<close>, on a connected link: port and
  value are both valid, the claim expects the frame \<open>05:H\<close>, and the code raises
  \<open>TypeError\<close> with nothing written.
\<close>

theorem set_value_int_port_raises:
  "set_value wire_up (PInt 5) (VBool True) = (Inl TypeError, wire_up) \<and>
   is_valid_port (PInt 5) \<and> is_valid_value (VBool True)"
  by (simp add: set_value_def check_inputs_def)

text \<open>For a string port the frame of claim C5 is what a connected link receives.\<close>

lemma set_value_str_port_frame:
  "is_valid_port (PStr p) \<Longrightarrow> is_valid_value v \<Longrightarrow> connected s \<Longrightarrow>
   set_value s (PStr p) v = (Inr (), s\<lparr>tx := tx s @ [p @ '':'' @ format_value v @ [CHR 0x0D]]\<rparr>)"
  by (cases p) (auto simp: set_value_def check_inputs_def Serial_write_def split: if_splits)

text \<open>
  Claim C9 at the stepper port \<open>S0\<close> with speed 100, which \<open>is_valid_speed\<close> accepts:
  the frame written is \<open>S0-100\<close>, three decimal digits after the separator, where the
  claim and the docstring of \<open>format_speed\<close> promise two.
\<close>

theorem set_speed_three_digits:
  "is_valid_speed 100 \<and>
   set_speed wire_up (PStr ''S0'') 100 = (Inr (), wire_up\<lparr>tx := [''S0-100'' @ [CHR 0x0D]]\<rparr>)"
  by (simp add: set_speed_def check_inputs_def is_valid_speed_def format_speed_def py_str_def
      py_str_nat.simps Serial_write_def wire_up_def)

text \<open>
  Against claim C6 as stated: for the stepper port \<open>S0\<close> the value test of
  \<open>check_inputs\<close> is skipped by its guard \<open>port[0] != 'S'\<close>, so the value 300, which
  \<open>is_valid_value\<close> rejects, raises nothing and is written as \<open>S0:12c\<close>.
\<close>

theorem stepper_value_unchecked:
  "is_valid_port (PStr ''S0'') \<and> \<not> is_valid_value (VInt 300) \<and>
   set_value wire_up (PStr ''S0'') (VInt 300) = (Inr (), wire_up\<lparr>tx := [''S0:12c'' @ [CHR 0x0D]]\<rparr>)"
  by (simp add: set_value_def check_inputs_def py_hex_nat.simps Serial_write_def wire_up_def)

lemma set_value_raise_no_write: "isl (fst (set_value s p v)) \<Longrightarrow> snd (set_value s p v) = s"
  by (auto simp: set_value_def split: sum.splits if_splits)

lemma set_mode_raise_no_write: "isl (fst (set_mode s p m)) \<Longrightarrow> snd (set_mode s p m) = s"
  by (auto simp: set_mode_def split: sum.splits if_splits)

lemma set_speed_raise_no_write: "isl (fst (set_speed s p sp)) \<Longrightarrow> snd (set_speed s p sp) = s"
  by (auto simp: set_speed_def set_value_raise_no_write split: sum.splits if_splits)

lemma get_value_check_raise_no_write:
  "\<not> is_valid_port p \<Longrightarrow> get_value s p = (Inl ValueError, s)"
  by (simp add: get_value_def check_inputs_def)

lemma set_value_invalid_port: "\<not> is_valid_port p \<Longrightarrow> set_value s p v = (Inl ValueError, s)"
  by (simp add: set_value_def check_inputs_def)

lemma set_value_invalid_value:
  "is_valid_port (PStr str) \<Longrightarrow> hd str \<noteq> CHR ''S'' \<Longrightarrow> \<not> is_valid_value v \<Longrightarrow>
   set_value s (PStr str) v = (Inl ValueError, s)"
  by (cases str) (auto simp: set_value_def check_inputs_def)

text \<open>
  Claim C6, as the code has it. Whenever \<open>set_value\<close>, \<open>set_mode\<close> or \<open>set_speed\<close>
  raises, nothing has been written: the \<open>Serial\<close> object is as it was before the call.
  \<open>set_value\<close> raises \<open>ValueError\<close> for every invalid port, and for every valid string
  port whose first character is not \<open>S\<close> together with every value that is neither a
  boolean nor an integer in 0..255.
\<close>

theorem validation_before_write:
  "(isl (fst (set_value s p v)) \<longrightarrow> snd (set_value s p v) = s) \<and>
   (isl (fst (set_mode s p m)) \<longrightarrow> snd (set_mode s p m) = s) \<and>
   (isl (fst (set_speed s p sp)) \<longrightarrow> snd (set_speed s p sp) = s) \<and>
   (\<not> is_valid_port p \<longrightarrow> set_value s p v = (Inl ValueError, s)) \<and>
   (\<forall>str. p = PStr str \<and> is_valid_port p \<and> hd str \<noteq> CHR ''S'' \<and> \<not> is_valid_value v
      \<longrightarrow> set_value s p v = (Inl ValueError, s))"
  using set_value_raise_no_write set_mode_raise_no_write set_speed_raise_no_write
    set_value_invalid_port set_value_invalid_value
  by blast

text \<open>Three rejected calls on a connected link: nothing reaches the wire.\<close>

theorem validation_before_write_witness:
  "set_value wire_up (PStr ''A0'') (VInt 256) = (Inl ValueError, wire_up) \<and>
   set_value wire_up (PStr ''M1'') (VInt (- 1)) = (Inl ValueError, wire_up) \<and>
   set_value wire_up (PStr ''Z9'') (VBool True) = (Inl ValueError, wire_up)"
proof -
  have a: "is_valid_port (PStr ''A0'')" "is_valid_port (PStr ''M1'')" "\<not> is_valid_port (PStr ''Z9'')"
    by (simp_all add: py_int_two is_space_def is_digit_def)
  have b: "\<not> is_valid_value (VInt 256)" "\<not> is_valid_value (VInt (- 1))" by simp_all
  show ?thesis
    using validation_before_write [of wire_up "PStr ''A0''" "VInt 256"]
      validation_before_write [of wire_up "PStr ''M1''" "VInt (- 1)"]
      validation_before_write [of wire_up "PStr ''Z9''" "VBool True"] a b
    by simp
qed

subsection \<open>A Serial that is not connected\<close>

lemma disconnected_set_value:
  "\<not> connected s \<Longrightarrow> set_value s p v = (check_inputs p (Some v) None None, s)"
  by (simp add: set_value_def split: sum.splits)

lemma disconnected_set_mode:
  "\<not> connected s \<Longrightarrow> set_mode s p m = (check_inputs p None (Some m) None, s)"
  by (simp add: set_mode_def split: sum.splits)

lemma disconnected_set_speed_no_write: "\<not> connected s \<Longrightarrow> snd (set_speed s p sp) = s"
  by (simp add: set_speed_def disconnected_set_value split: sum.splits)

lemma disconnected_get_value:
  "\<not> connected s \<Longrightarrow> is_valid_port p \<Longrightarrow> get_value s p = (Inr ObjNone, s)"
  by (simp add: get_value_def check_inputs_def)

text \<open>
  The outcome of each setter on a link that is not connected: \<open>set_mode\<close> for any valid
  port, \<open>set_value\<close> and \<open>set_speed\<close> for any valid string port.
\<close>

lemma disconnected_set_mode_outcome:
  "\<not> connected s \<Longrightarrow> is_valid_port p \<Longrightarrow>
   fst (set_mode s p m) =
     (if m \<in> set (map fst MODES) \<or> m \<in> set (map snd MODES) then Inr () else Inl ValueError)"
  by (simp add: disconnected_set_mode check_inputs_def)

lemma disconnected_set_value_outcome:
  "\<not> connected s \<Longrightarrow> is_valid_port (PStr (c # cs)) \<Longrightarrow>
   fst (set_value s (PStr (c # cs)) v) =
     (if c = CHR ''S'' \<or> is_valid_value v then Inr () else Inl ValueError)"
  by (simp add: disconnected_set_value check_inputs_def del: is_valid_port.simps)

lemma disconnected_set_speed_outcome:
  "\<not> connected s \<Longrightarrow> is_valid_port (PStr (c # cs)) \<Longrightarrow>
   fst (set_speed s (PStr (c # cs)) sp) =
     (if c = CHR ''M'' then (if is_valid_value (VInt sp) then Inr () else Inl ValueError)
      else if c = CHR ''S'' \<and> is_valid_speed sp then Inr () else Inl ValueError)"
  by (cases "c = CHR ''M''")
    (auto simp: set_speed_def disconnected_set_value check_inputs_def simp del: is_valid_port.simps)

text \<open>
  Claim C10, as the code has it. On a \<open>Serial\<close> with \<open>connected = False\<close> and a port
  that \<open>is_valid_port\<close> accepts, \<open>set_value\<close>, \<open>set_mode\<close> and \<open>set_speed\<close> leave the
  object as it was (nothing is written) and \<open>get_value\<close> returns \<open>None\<close>. The
  validation of \<open>check_inputs\<close> still runs. \<open>set_mode\<close> raises \<open>ValueError\<close> exactly
  when the mode is neither a key nor a value of \<open>MODES\<close>. On every valid string port,
  \<open>set_value\<close> raises \<open>ValueError\<close> exactly when the port is not a stepper port and
  the value is invalid (on a stepper port no value is rejected), and \<open>set_speed\<close>
  returns exactly on a DC-motor port with a speed in 0..255 and on a stepper port with a
  speed in 1..255, raising \<open>ValueError\<close> otherwise. What \<open>set_value\<close> and
  \<open>set_speed\<close> answer on an integer port is not part of the statement.
\<close>

theorem disconnected_serial:
  assumes "\<not> connected s" and "is_valid_port p"
  shows "snd (set_value s p v) = s \<and> snd (set_mode s p m) = s \<and> snd (set_speed s p sp) = s \<and>
         get_value s p = (Inr ObjNone, s) \<and>
         fst (set_mode s p m) =
           (if m \<in> set (map fst MODES) \<or> m \<in> set (map snd MODES) then Inr ()
            else Inl ValueError) \<and>
         (\<forall>c cs. p = PStr (c # cs) \<longrightarrow>
            fst (set_value s p v) =
              (if c = CHR ''S'' \<or> is_valid_value v then Inr () else Inl ValueError) \<and>
            fst (set_speed s p sp) =
              (if c = CHR ''M'' then (if is_valid_value (VInt sp) then Inr () else Inl ValueError)
               else if c = CHR ''S'' \<and> is_valid_speed sp then Inr () else Inl ValueError))"
proof -
  have a: "snd (set_value s p v) = s"
    using assms(1) by (simp add: disconnected_set_value)
  have b: "snd (set_mode s p m) = s"
    using assms(1) by (simp add: disconnected_set_mode)
  have c: "snd (set_speed s p sp) = s"
    using assms(1) by (rule disconnected_set_speed_no_write)
  have d: "get_value s p = (Inr ObjNone, s)"
    using assms by (rule disconnected_get_value)
  have e: "fst (set_mode s p m) =
      (if m \<in> set (map fst MODES) \<or> m \<in> set (map snd MODES) then Inr () else Inl ValueError)"
    using assms by (rule disconnected_set_mode_outcome)
  have f: "\<forall>c cs. p = PStr (c # cs) \<longrightarrow>
      fst (set_value s p v) =
        (if c = CHR ''S'' \<or> is_valid_value v then Inr () else Inl ValueError) \<and>
      fst (set_speed s p sp) =
        (if c = CHR ''M'' then (if is_valid_value (VInt sp) then Inr () else Inl ValueError)
         else if c = CHR ''S'' \<and> is_valid_speed sp then Inr () else Inl ValueError)"
  proof (intro allI impI)
    fix c cs
    assume p: "p = PStr (c # cs)"
    with assms(2) have ok: "is_valid_port (PStr (c # cs))" by simp
    show "fst (set_value s p v) =
        (if c = CHR ''S'' \<or> is_valid_value v then Inr () else Inl ValueError) \<and>
      fst (set_speed s p sp) =
        (if c = CHR ''M'' then (if is_valid_value (VInt sp) then Inr () else Inl ValueError)
         else if c = CHR ''S'' \<and> is_valid_speed sp then Inr () else Inl ValueError)"
      unfolding p
      using disconnected_set_value_outcome [OF assms(1) ok, of v]
        disconnected_set_speed_outcome [OF assms(1) ok, of sp]
      by (rule conjI)
  qed
  from a b c d e f show ?thesis by (intro conjI)
qed

text \<open>
  Against claim C10 as stated: on a link that is not connected, with the valid port
  \<open>S0\<close>, the invalid value 300 raises nothing.
\<close>

theorem disconnected_stepper_value_unchecked:
  "\<not> connected wire_down \<and> is_valid_port (PStr ''S0'') \<and> \<not> is_valid_value (VInt 300) \<and>
   set_value wire_down (PStr ''S0'') (VInt 300) = (Inr (), wire_down)"
  by (simp add: wire_down_def set_value_def check_inputs_def)

text \<open>The ports \<open>A3\<close>, \<open>S1\<close> and 7 on a link that is not connected.\<close>

theorem disconnected_serial_witness:
  "get_value wire_down (PStr ''A3'') = (Inr ObjNone, wire_down) \<and>
   set_value wire_down (PStr ''A3'') (VInt 999) = (Inl ValueError, wire_down) \<and>
   set_value wire_down (PStr ''A3'') (VBool True) = (Inr (), wire_down) \<and>
   set_mode wire_down (PStr ''A3'') ''MATRIX'' = (Inl ValueError, wire_down) \<and>
   set_mode wire_down (PInt 7) ''INPUT'' = (Inr (), wire_down) \<and>
   set_speed wire_down (PStr ''A3'') 5 = (Inl ValueError, wire_down) \<and>
   set_speed wire_down (PStr ''S1'') 0 = (Inl ValueError, wire_down) \<and>
   set_speed wire_down (PStr ''S1'') 5 = (Inr (), wire_down)"
proof -
  have c: "\<not> connected wire_down" by (simp add: wire_down_def)
  have p: "is_valid_port (PStr ''A3'')" "is_valid_port (PStr ''S1'')" "is_valid_port (PInt 7)"
    by simp_all
  have m: "''MATRIX'' \<notin> set (map fst MODES)" "''MATRIX'' \<notin> set (map snd MODES)"
    "''INPUT'' \<in> set (map fst MODES)"
    by (simp_all add: MODES_def)
  have v: "\<not> is_valid_value (VInt 999)" "is_valid_value (VBool True)"
    "\<not> is_valid_speed 0" "is_valid_speed 5"
    by (simp_all add: is_valid_speed_def)
  show ?thesis
    using disconnected_serial [OF c p(1), of "VInt 999" "''MATRIX''" 5]
      disconnected_serial [OF c p(1), of "VBool True" "''MATRIX''" 5]
      disconnected_serial [OF c p(2), of "VBool True" "''MATRIX''" 0]
      disconnected_serial [OF c p(2), of "VBool True" "''MATRIX''" 5]
      disconnected_serial [OF c p(3), of "VBool True" "''INPUT''" 5]
      m v
    by (simp add: prod_eq_iff del: is_valid_port.simps)
qed

section \<open>Properties of the matrix fetch\<close>

text \<open>
  \<open>get_value\<close> returns \<open>int(line)\<close> or \<open>None\<close>, never a string, so
  \<open>DigitalInputMatrix._fetch_value\<close> never reaches its loop: it raises on every call.
  On a connected link with a valid port the error is the \<open>ValueError\<close> of \<open>int(line)\<close>
  when the line is no integer literal, and the \<open>AttributeError\<close> of \<open>val.split\<close>
  otherwise.
\<close>

lemma get_value_not_str: "fst (get_value s p) \<noteq> Inr (ObjStr x)"
  by (auto simp: get_value_def Let_def split: sum.splits list.splits option.splits)

lemma get_value_line:
  "connected s \<Longrightarrow> rx s = line # rest \<Longrightarrow> is_valid_port p \<Longrightarrow>
   get_value s p =
     (case py_int line of None \<Rightarrow> Inl ValueError | Some n \<Rightarrow> Inr (ObjInt n),
      s\<lparr>tx := tx s @ [port_str p @ ''?'' @ [CHR 0x0D]], rx := rest\<rparr>)"
  by (auto simp: get_value_def check_inputs_def Serial_write_def Let_def split: option.splits)

lemma DigitalInputMatrix_fetch_value_raises:
  "isl (fst (DigitalInputMatrix_fetch_value s m))"
proof (cases "get_value s (port m)")
  case (Pair r s')
  then show ?thesis
    using get_value_not_str [of s "port m"]
    by (cases r) (auto simp: DigitalInputMatrix_fetch_value_def split: pyobj.splits)
qed

lemma DigitalInputMatrix_fetch_value_line:
  "connected s \<Longrightarrow> rx s = line # rest \<Longrightarrow> is_valid_port (port m) \<Longrightarrow>
   DigitalInputMatrix_fetch_value s m =
     (Inl (if py_int line = None then ValueError else AttributeError),
      s\<lparr>tx := tx s @ [port_str (port m) @ ''?'' @ [CHR 0x0D]], rx := rest\<rparr>)"
  by (auto simp: DigitalInputMatrix_fetch_value_def get_value_line split: option.splits)

text \<open>A line with a row separator in it is no integer literal.\<close>

lemma dropWhile_keeps: "c \<in> set xs \<Longrightarrow> \<not> P c \<Longrightarrow> c \<in> set (dropWhile P xs)"
  by (induction xs) auto

lemma py_strip_keeps: "c \<in> set s \<Longrightarrow> \<not> is_space c \<Longrightarrow> c \<in> set (py_strip s)"
  by (simp add: py_strip_def dropWhile_keeps)

lemma digits_from_chars:
  "digits_from acc cs = Some n \<Longrightarrow> c \<in> set cs \<Longrightarrow> is_digit c \<or> c = CHR ''_''"
  by (induction acc cs rule: digits_from.induct) (auto split: if_splits)

lemma py_digits_chars: "py_digits cs = Some n \<Longrightarrow> c \<in> set cs \<Longrightarrow> is_digit c \<or> c = CHR ''_''"
  by (cases cs) (auto simp: py_digits_def dest: digits_from_chars split: if_splits)

lemma semicolon_plain:
  "\<not> is_space CHR '';''" "\<not> is_digit CHR '';''"
  by (simp_all add: is_space_def is_digit_def)

lemma py_int_semicolon:
  assumes "CHR '';'' \<in> set line"
  shows "py_int line = None"
proof (rule ccontr)
  assume "py_int line \<noteq> None"
  then obtain n where n: "py_int line = Some n" by auto
  have mem: "CHR '';'' \<in> set (py_strip line)"
    using assms semicolon_plain(1) by (rule py_strip_keeps)
  then obtain c cs where cs: "py_strip line = c # cs" by (cases "py_strip line") auto
  show False
  proof (cases "c = CHR ''-'' \<or> c = CHR ''+''")
    case True
    then have "CHR '';'' \<in> set cs" using mem cs by auto
    moreover from n True cs obtain k where "py_digits cs = Some k"
      by (auto simp: py_int_def split: if_splits)
    ultimately show False using py_digits_chars semicolon_plain(2) by fastforce
  next
    case False
    with n cs obtain k where "py_digits (c # cs) = Some k"
      by (auto simp: py_int_def split: if_splits)
    then show False using py_digits_chars mem cs semicolon_plain(2) by fastforce
  qed
qed



lemma line8_rows: "matrix_rows False line8 = replicate 8 [True, True, False, False, False, False, True, True]"
  by (simp add: matrix_rows_def line8_def row8_def eval_nat_numeral)

text \<open>
  Claim C4 at a line of 8 rows \<open>11000011\<close>, each followed by \<open>;\<close>, read through the
  valid port \<open>A0\<close> of a connected link. The loop of \<open>_fetch_value\<close> applied to this
  line gives the 8 by 8 grid the claim describes, but the fetch does not get there:
  \<open>get_value\<close> applies \<open>int\<close> to the line and raises \<open>ValueError\<close>.
\<close>

theorem matrix_fetch_wellformed_line_raises:
  "matrix_rows False line8 = replicate 8 [True, True, False, False, False, False, True, True] \<and>
   DigitalInputMatrix_fetch_value (wire_up\<lparr>rx := [line8]\<rparr>) grid_port =
     (Inl ValueError, wire_up\<lparr>tx := [''A0?'' @ [CHR 0x0D]], rx := []\<rparr>)"
proof -
  have "CHR '';'' \<in> set line8" by (simp add: line8_def row8_def)
  then have "py_int line8 = None" by (rule py_int_semicolon)
  then show ?thesis
    by (simp add: line8_rows DigitalInputMatrix_fetch_value_line wire_up_def grid_port_def)
qed

section \<open>Properties of the move sensor\<close>

text \<open>
  Fields of the sensor that an update of an inherited field leaves alone.
\<close>

lemma MoveSensor_cached_fields [simp]:
  fixes self :: MoveSensor
  shows "matrix (self\<lparr>cv_value := v\<rparr>) = matrix self"
    and "matrix (self\<lparr>last_value := v\<rparr>) = matrix self"
    and "pick_up (self\<lparr>cv_value := v\<rparr>) = pick_up self"
    and "pick_up (self\<lparr>last_value := v\<rparr>) = pick_up self"
    and "prev_pick_up (self\<lparr>cv_value := v\<rparr>) = prev_pick_up self"
    and "prev_pick_up (self\<lparr>last_value := v\<rparr>) = prev_pick_up self"
  by (cases self; simp)+

subsection \<open>Placing a piece\<close>

text \<open>
  On a board whose current and previous samples are both cached, \<open>newly\<close> is their
  difference and nothing is fetched.
\<close>

lemma newly_cached:
  "DigitalInputMatrixSet_newly s (board older cur) = (Inr (Some (set_minus cur older)), s, board older cur)"
  by (simp add: DigitalInputMatrixSet_newly_def CachedValue_value_def board_def)

lemma index_to_move_examples:
  "index_to_move (4, 3) = ''e4''"
  "index_to_move (3, 4) = ''d5''" "index_to_move (2, 2) = ''c3''"
  by (simp_all add: char_of_eq_iff py_str_nat.simps)

text \<open>
  Claim C2. The sensor is in OneLifted: \<open>pick_up\<close> holds the lifted square \<open>sq\<close> and
  \<open>prev_pick_up\<close> is \<open>None\<close>. On a cycle where squares newly appear (\<open>newly()\<close>
  returns a non-empty set), \<open>_fetch_value\<close> takes the first of them as the placed
  square \<open>p\<close>: if \<open>p\<close> equals \<open>sq\<close> no move is returned, otherwise the move from
  \<open>sq\<close> to \<open>p\<close> is returned; in both cases \<open>pick_up\<close> and \<open>prev_pick_up\<close> are
  \<open>None\<close> afterwards, which is Idle.
\<close>

theorem one_lifted_placement:
  assumes "pick_up self = Some sq" and "prev_pick_up self = None"
    and "DigitalInputMatrixSet_newly s (matrix self) = (Inr (Some newly), s', m')"
    and "newly \<noteq> []"
  shows "MoveSensor_fetch_value s self =
           (Inr (if index_to_move (hd newly) = sq then None
                 else Some (sq @ index_to_move (hd newly))),
            s', self\<lparr>matrix := m', pick_up := None, prev_pick_up := None\<rparr>)"
  using assms by (simp add: MoveSensor_fetch_value_def Let_def)

text \<open>
  The square e2 lifted and a piece appearing on e4 gives \<open>e2e4\<close>; the square e4 lifted
  and the piece put back on e4 gives no move.
\<close>

theorem one_lifted_placement_witness:
  "MoveSensor_fetch_value wire_up (sensor None (Some ''e2'') (board [(4, 6)] [(4, 3), (4, 6)])) =
     (Inr (Some ''e2e4''), wire_up, sensor None None (board [(4, 6)] [(4, 3), (4, 6)])) \<and>
   MoveSensor_fetch_value wire_up (sensor None (Some ''e4'') (board [(4, 6)] [(4, 3), (4, 6)])) =
     (Inr None, wire_up, sensor None None (board [(4, 6)] [(4, 3), (4, 6)]))"
proof -
  have a: "set_minus [(4, 3), (4, 6)] [(4, 6)] = [(4::nat, 3::nat)]"
    by (simp add: set_minus_def)
  show ?thesis
    using one_lifted_placement [of "sensor None (Some ''e2'') (board [(4, 6)] [(4, 3), (4, 6)])" "''e2''"
        wire_up "[(4, 3)]" wire_up "board [(4, 6)] [(4, 3), (4, 6)]"]
      one_lifted_placement [of "sensor None (Some ''e4'') (board [(4, 6)] [(4, 3), (4, 6)])" "''e4''"
        wire_up "[(4, 3)]" wire_up "board [(4, 6)] [(4, 3), (4, 6)]"]
    by (simp add: sensor_def newly_cached a index_to_move_examples del: index_to_move.simps)
qed

text \<open>
  Claim C1, as the code has it. The sensor is in TwoLifted: \<open>prev_pick_up\<close> holds the
  square lifted first and \<open>pick_up\<close> the square lifted second. On a cycle where squares
  newly appear, with \<open>p\<close> the placed square: if \<open>p\<close> equals the second-lifted square
  the move from the first-lifted square to \<open>p\<close> is returned (a plain move string, no
  capture flag), otherwise no move is returned; in both cases \<open>pick_up\<close> and
  \<open>prev_pick_up\<close> are \<open>None\<close> afterwards, which is Idle.
\<close>

theorem two_lifted_placement:
  assumes "pick_up self = Some second" and "prev_pick_up self = Some first"
    and "DigitalInputMatrixSet_newly s (matrix self) = (Inr (Some newly), s', m')"
    and "newly \<noteq> []"
  shows "MoveSensor_fetch_value s self =
           (Inr (if second = index_to_move (hd newly) then Some (first @ index_to_move (hd newly))
                 else None),
            s', self\<lparr>matrix := m', pick_up := None, prev_pick_up := None\<rparr>)"
  using assms by (simp add: MoveSensor_fetch_value_def Let_def)

text \<open>The capture scenario: e4 lifted, then d5 lifted, then a piece appears on d5.\<close>

theorem two_lifted_placement_witness:
  "MoveSensor_fetch_value wire_up (sensor (Some ''e4'') (Some ''d5'') (board [(4, 6)] [(3, 4), (4, 6)])) =
     (Inr (Some ''e4d5''), wire_up, sensor None None (board [(4, 6)] [(3, 4), (4, 6)]))"
proof -
  have a: "set_minus [(3, 4), (4, 6)] [(4, 6)] = [(3::nat, 4::nat)]"
    by (simp add: set_minus_def)
  show ?thesis
    using two_lifted_placement [of "sensor (Some ''e4'') (Some ''d5'') (board [(4, 6)] [(3, 4), (4, 6)])"
        "''d5''" "''e4''" wire_up "[(3, 4)]" wire_up "board [(4, 6)] [(3, 4), (4, 6)]"]
    by (simp add: sensor_def newly_cached a index_to_move_examples del: index_to_move.simps)
qed

text \<open>
  Against claim C1 as stated, with e4 lifted first and d5 second. A piece appearing on
  e4, the first-lifted square, yields no move and leaves the sensor Idle, with
  \<open>pick_up = None\<close> rather than d5 still pending. A piece appearing on c3, a third
  square, yields no move where the claim expects the move from e4 to c3.
\<close>

theorem two_lifted_counterexample:
  "MoveSensor_fetch_value wire_up (sensor (Some ''e4'') (Some ''d5'') (board [(4, 6)] [(4, 3), (4, 6)])) =
     (Inr None, wire_up, sensor None None (board [(4, 6)] [(4, 3), (4, 6)])) \<and>
   MoveSensor_fetch_value wire_up (sensor (Some ''e4'') (Some ''d5'') (board [(4, 6)] [(2, 2), (4, 6)])) =
     (Inr None, wire_up, sensor None None (board [(4, 6)] [(2, 2), (4, 6)]))"
  by (simp add: MoveSensor_fetch_value_def sensor_def newly_cached set_minus_def
      index_to_move_examples del: index_to_move.simps)

text \<open>
  How TwoLifted comes about: a second vanished square moves the pending square to
  \<open>prev_pick_up\<close>. Distinct board squares have distinct names, so comparing names is
  comparing squares.
\<close>

lemma note_lift_order:
  "note_lift [sq] (sensor None (Some first) m) = sensor (Some first) (Some (index_to_move sq)) m"
  by (simp add: note_lift_def sensor_def)

lemma py_str_nat_digit: "n < 10 \<Longrightarrow> py_str_nat n = [''0123456789'' ! n]"
  by (simp add: py_str_nat.simps)

lemma digit_chars_inj: "m < 10 \<Longrightarrow> n < 10 \<Longrightarrow> ''0123456789'' ! m = ''0123456789'' ! n \<longleftrightarrow> m = n"
proof -
  have "distinct ''0123456789''" by simp
  moreover have "length ''0123456789'' = 10" by simp
  ultimately show "m < 10 \<Longrightarrow> n < 10 \<Longrightarrow> ?thesis"
    by (metis nth_eq_iff_index_eq)
qed

lemma index_to_move_inj:
  assumes "i < 8" "j < 8" "i' < 8" "j' < 8"
  shows "index_to_move (i, j) = index_to_move (i', j') \<longleftrightarrow> (i, j) = (i', j')"
  using assms digit_chars_inj [of "j + 1" "j' + 1"]
  by (auto simp: py_str_nat_digit)

subsection \<open>The cached value\<close>

text \<open>
  Claim C8, as the code has it. For any subclass, whatever its \<open>_fetch_value\<close> does:
  when nothing is cached and the fetch returns a sample \<open>v\<close> other than \<open>None\<close>, the
  first access of \<open>value\<close> makes one \<open>_fetch_value\<close> call and caches \<open>v\<close>, and a
  second access with no reset in between returns \<open>v\<close> with the fetch counter, the world
  and the object all unchanged.
\<close>

theorem value_twice_one_fetch:
  assumes "cv_value self = None" and "fetch_value w self = (Inr (Some v), w', self')"
  shows "CachedValue_value (counting fetch_value) (n, w) self =
           (Inr (Some v), (Suc n, w'), self'\<lparr>cv_value := Some v\<rparr>) \<and>
         CachedValue_value (counting fetch_value) (Suc n, w') (self'\<lparr>cv_value := Some v\<rparr>) =
           (Inr (Some v), (Suc n, w'), self'\<lparr>cv_value := Some v\<rparr>)"
  using assms by (simp add: CachedValue_value_def counting_def)

lemma fetch_e2e4:
  "MoveSensor_fetch_value wire_up (sensor None (Some ''e2'') (board [(4, 6)] [(4, 3), (4, 6)])) =
     (Inr (Some ''e2e4''), wire_up, sensor None None (board [(4, 6)] [(4, 3), (4, 6)]))"
  by (simp add: MoveSensor_fetch_value_def sensor_def newly_cached set_minus_def
      index_to_move_examples del: index_to_move.simps)

text \<open>A sensor whose fetch completes the move \<open>e2e4\<close>: one fetch for two accesses.\<close>

theorem value_twice_one_fetch_witness:
  "CachedValue_value (counting MoveSensor_fetch_value) (0, wire_up)
     (sensor None (Some ''e2'') (board [(4, 6)] [(4, 3), (4, 6)])) =
     (Inr (Some ''e2e4''), (1, wire_up),
      (sensor None None (board [(4, 6)] [(4, 3), (4, 6)]))\<lparr>cv_value := Some ''e2e4''\<rparr>) \<and>
   CachedValue_value (counting MoveSensor_fetch_value) (1, wire_up)
     ((sensor None None (board [(4, 6)] [(4, 3), (4, 6)]))\<lparr>cv_value := Some ''e2e4''\<rparr>) =
     (Inr (Some ''e2e4''), (1, wire_up),
      (sensor None None (board [(4, 6)] [(4, 3), (4, 6)]))\<lparr>cv_value := Some ''e2e4''\<rparr>)"
proof -
  have c: "cv_value (sensor None (Some ''e2'') (board [(4, 6)] [(4, 3), (4, 6)])) = None"
    by (simp add: sensor_def)
  show ?thesis
    using value_twice_one_fetch [where fetch_value = MoveSensor_fetch_value and n = 0, OF c fetch_e2e4]
    by simp
qed

text \<open>
  Against claim C8 as stated: the cache is empty exactly when \<open>_value is None\<close>, so a
  fetched \<open>None\<close> is not remembered. An Idle \<open>MoveSensor\<close> fetches \<open>None\<close>; two
  accesses of \<open>value\<close> with no reset in between make two \<open>_fetch_value\<close> calls.
\<close>

theorem value_twice_counterexample:
  "CachedValue_value (counting MoveSensor_fetch_value) (0, wire_up) (sensor None None (board [] [])) =
     (Inr None, (1, wire_up), sensor None None (board [] [])) \<and>
   CachedValue_value (counting MoveSensor_fetch_value) (1, wire_up) (sensor None None (board [] [])) =
     (Inr None, (2, wire_up), sensor None None (board [] []))"
  by (simp add: CachedValue_value_def counting_def MoveSensor_fetch_value_def sensor_def)

subsection \<open>A cycle whose grid cannot be decoded\<close>

text \<open>
  While the current grid is not cached, anything that needs it raises, and nothing that
  raises has touched the sensor.
\<close>

lemma set_fetch_raises:
  "DigitalInputMatrixSet_fetch_value s m = (r, s', m') \<Longrightarrow> isl r \<and> m' = m"
  using DigitalInputMatrix_fetch_value_raises [of s m]
  by (auto simp: DigitalInputMatrixSet_fetch_value_def split: prod.splits sum.splits)

lemma matrix_value_uncached:
  assumes "cv_value m = None"
    and "CachedValue_value DigitalInputMatrixSet_fetch_value s m = (r, s', m')"
  shows "isl r \<and> m' = m"
proof (cases "DigitalInputMatrixSet_fetch_value s m")
  case (fields r0 s0 m0)
  with set_fetch_raises [OF fields] assms show ?thesis
    by (auto simp: CachedValue_value_def split: sum.splits)
qed


lemma oldly_uncached:
  assumes "cv_value m = None" and "DigitalInputMatrixSet_oldly s m = (r, s', m')"
  shows "m' = m \<and> (isl r \<or> r = Inr None \<and> s' = s)"
proof (cases "last_value m")
  case None
  with assms show ?thesis by (simp add: DigitalInputMatrixSet_oldly_def)
next
  case (Some older)
  obtain r0 s0 m0 where v: "CachedValue_value DigitalInputMatrixSet_fetch_value s m = (r0, s0, m0)"
    by (cases "CachedValue_value DigitalInputMatrixSet_fetch_value s m") auto
  from matrix_value_uncached [OF assms(1) v] v Some assms(2) show ?thesis
    by (auto simp: DigitalInputMatrixSet_oldly_def split: sum.splits)
qed







text \<open>Whatever the cache holds, a raising \<open>_fetch_value\<close> keeps the pending lifts.\<close>

lemma sensor_fetch_raise_keeps_lifts:
  assumes "MoveSensor_fetch_value s self = (Inl e, s', self')"
  shows "pick_up self' = pick_up self \<and> prev_pick_up self' = prev_pick_up self"
proof (cases "pick_up self")
  case None
  with assms show ?thesis by (simp add: MoveSensor_fetch_value_def)
next
  case (Some pu)
  obtain r0 s0 m0 where n: "DigitalInputMatrixSet_newly s (matrix self) = (r0, s0, m0)"
    by (cases "DigitalInputMatrixSet_newly s (matrix self)") auto
  with Some assms show ?thesis
    by (auto simp: MoveSensor_fetch_value_def Let_def split: sum.splits option.splits if_splits)
qed



end
